theory Spec2Isabelle
  imports Main
begin

section \<open>The GitHub MCP worker (src/index.ts)\<close>

text \<open>
  A shallow embedding of \<^verbatim>\<open>src/index.ts\<close>: the token check, the recursive
  traversal \<^verbatim>\<open>getRepositoryStructure\<close>, the fetcher \<^verbatim>\<open>getFileContent\<close>, the
  SSE helpers \<^verbatim>\<open>sendSSEMessage\<close> and \<^verbatim>\<open>keepAlive\<close>, and the two tool handlers
  registered in \<^verbatim>\<open>MyMCP.init\<close>.

  Conventions of the model.
  \<^item> Strings are \<open>string\<close>; only the ASCII range is modelled (\<^verbatim>\<open>trim\<close> and
    \<^verbatim>\<open>toLowerCase\<close> act on ASCII white space and ASCII letters).
  \<^item> A rejected promise or a thrown exception is a value \<open>Error msg\<close>; a function that
    can throw returns it (\<open>Inl\<close> of a sum, or \<open>Some\<close> of an \<open>exn option\<close> when the
    normal result is void).
  \<^item> The module's mutable state and the effects a caller can observe are the record
    \<open>world\<close>: the client registry \<^verbatim>\<open>sseClients\<close>, the interval timers registered
    with \<^verbatim>\<open>setInterval\<close>, the lines written with \<^verbatim>\<open>console.error\<close>, and the
    sequence \<open>trace\<close> of the calls made to \<^verbatim>\<open>octokit.repos.getContent\<close> and to
    \<^verbatim>\<open>sendSSEMessage\<close>, in the order in which they are made.
  \<^item> One request runs from start to end without interleaving (every \<^verbatim>\<open>await\<close> is
    sequential in the source); the host answers a request by its arguments only.
  \<^item> \<^verbatim>\<open>JSON.stringify\<close> and the SSE text framing are not rendered: a message and a
    tool result are the structured values handed to them, and
    \<^verbatim>\<open>new Date().toISOString()\<close> is the value \<open>JTimestamp\<close>.
  \<^item> The recursion of the traversal follows the answers of the host, which nothing
    bounds, so the traversal takes fuel: one unit per nested call, \<open>None\<close> when it
    runs out.
\<close>

subsection \<open>Data\<close>

datatype exn = Error (message: string)

text \<open>An entry of a \<^verbatim>\<open>getContent\<close> answer, with the fields the code reads.\<close>

record content_entry =
  c_name :: string
  c_path :: string
  c_type :: string
  c_size :: nat
  c_download_url :: "string option"
  c_content :: "string option"

text \<open>\<^verbatim>\<open>response.data\<close>: an array for a directory, one object otherwise.\<close>

datatype response_data = Array "content_entry list" | Object content_entry

text \<open>The client: owner, repo and path to a rejected promise or to an answer.\<close>

type_synonym octokit = "string \<Rightarrow> string \<Rightarrow> string \<Rightarrow> exn + response_data"

text \<open>\<^verbatim>\<open>FileItem | DirectoryItem\<close>.\<close>

datatype item =
  FileItem (name: string) (path: string) (fsize: nat) (download_url: "string option")
| DirectoryItem (name: string) (path: string) (children: "item list")

datatype FileWithContent = FileWithContent (fpath: string) (fcontent: "string option")

record RepositoryResponse =
  r_owner :: string
  r_repo :: string
  r_structure :: "item list"
  files :: "FileWithContent list option"

datatype FileResponse = FileResponse (fr_path: string) (fr_content: "string option")

text \<open>
  What a tool handler hands to \<^verbatim>\<open>JSON.stringify\<close> for its text content: an error
  object \<^verbatim>\<open>{error, details?}\<close>, a \<^verbatim>\<open>RepositoryResponse\<close> or a \<^verbatim>\<open>FileResponse\<close>.
\<close>

datatype tool_result =
  ErrorResult string "string option"
| RepositoryResult RepositoryResponse
| FileResult FileResponse

datatype jvalue = JString string | JBool bool | JNumber nat | JTimestamp

type_synonym jobject = "(string \<times> jvalue) list"

text \<open>
  What is enqueued on a client's stream: an event with its data, or the keep-alive
  comment line.
\<close>

datatype chunk = EventChunk string jobject | KeepAliveComment

text \<open>
  \<^verbatim>\<open>ReadableStreamDefaultController\<close>, a type of the platform: its queue, and whether
  the stream can still be written (\<^verbatim>\<open>enqueue\<close> throws a TypeError once the stream is
  closed or errored).
\<close>

datatype controller = Controller (is_closed: bool) (queue: "chunk list")

datatype SSEClient = SSEClient (client_id: string) (controller: controller)

datatype action =
  GetContent string string string
| SendSSE "string option" string jobject

datatype timer_callback = KeepAliveTick

record world =
  sseClients :: "SSEClient list"
  timers :: "(nat \<times> timer_callback) list"
  trace :: "action list"
  console :: "(string \<times> exn) list"

text \<open>
  The platform a handler runs on: \<^verbatim>\<open>new Octokit({ auth: token })\<close> and
  \<^verbatim>\<open>Buffer.from(s, 'base64').toString('utf-8')\<close>.
\<close>

record platform =
  new_Octokit :: "string \<Rightarrow> octokit"
  base64_utf8 :: "string \<Rightarrow> string"

subsection \<open>Strings\<close>

definition is_space :: "char \<Rightarrow> bool" where
  "is_space c = (c \<in> set [CHR 0x09, CHR 0x0A, CHR 0x0B, CHR 0x0C, CHR 0x0D, CHR 0x20])"

definition trim :: "string \<Rightarrow> string" where
  "trim s = rev (dropWhile is_space (rev (dropWhile is_space s)))"

definition toLowerCase_char :: "char \<Rightarrow> char" where
  "toLowerCase_char c =
     (case map_of (zip ''ABCDEFGHIJKLMNOPQRSTUVWXYZ'' ''abcdefghijklmnopqrstuvwxyz'') c of
        None \<Rightarrow> c
      | Some l \<Rightarrow> l)"

definition toLowerCase :: "string \<Rightarrow> string" where
  "toLowerCase s = map toLowerCase_char s"

text \<open>
  \<^verbatim>\<open>trim\<close> strips the six ASCII white-space characters and \<^verbatim>\<open>toLowerCase\<close> lowers
  the letters A to Z. The built-ins also strip U+00A0, U+FEFF and the other Unicode
  white space, and lower letters outside ASCII; strings with such characters are outside
  the model.
\<close>

text \<open>\<^verbatim>\<open>s.split(d)\<close> for a one-character separator: never the empty array.\<close>

fun split :: "char \<Rightarrow> string \<Rightarrow> string list" where
  "split d [] = [[]]"
| "split d (c # cs) =
     (if c = d then [] # split d cs
      else (case split d cs of [] \<Rightarrow> [[c]] | w # ws \<Rightarrow> (c # w) # ws))"

text \<open>\<^verbatim>\<open>xs.pop()\<close>, the value it returns: \<^verbatim>\<open>undefined\<close> on the empty array.\<close>

definition pop :: "'a list \<Rightarrow> 'a option" where
  "pop xs = (if xs = [] then None else Some (last xs))"

text \<open>
  Line 216: \<^verbatim>\<open>item.name.split('.').pop()?.toLowerCase() || ''\<close>. The empty string
  is falsy, so \<^verbatim>\<open>||\<close> replaces it, and \<^verbatim>\<open>undefined\<close>, by \<^verbatim>\<open>''\<close>.
\<close>

definition fileExt :: "string \<Rightarrow> string" where
  "fileExt nm =
     (case map_option toLowerCase (pop (split CHR ''.'' nm)) of
        None \<Rightarrow> ''''
      | Some s \<Rightarrow> if s = '''' then '''' else s)"

subsection \<open>The token check\<close>

text \<open>
  \<^verbatim>\<open>!token || typeof token !== 'string' || token.trim() === ''\<close>: \<open>None\<close> is
  \<^verbatim>\<open>undefined\<close>; a value of the model is always a string.
\<close>

definition validateGitHubToken :: "string option \<Rightarrow> bool" where
  "validateGitHubToken token =
     (case token of
        None \<Rightarrow> False
      | Some t \<Rightarrow> if t = '''' \<or> trim t = '''' then False else True)"

subsection \<open>The traversal\<close>

text \<open>
  \<^verbatim>\<open>getRepositoryStructure\<close>, lines 58 to 106. The only statement of the
  \<^verbatim>\<open>try\<close> block that can throw is the awaited host call (the nested call catches
  its own), so the \<^verbatim>\<open>catch\<close> branch is the branch of a failed call.
  \<open>structure_items\<close> is the \<^verbatim>\<open>for\<close> loop over \<^verbatim>\<open>response.data\<close>; the items
  pushed by the rest of the loop follow the item pushed first.
\<close>

fun getRepositoryStructure ::
    "nat \<Rightarrow> octokit \<Rightarrow> string \<Rightarrow> string \<Rightarrow> string \<Rightarrow> world \<Rightarrow> (item list \<times> world) option"
  and structure_items ::
    "nat \<Rightarrow> octokit \<Rightarrow> string \<Rightarrow> string \<Rightarrow> content_entry list \<Rightarrow> world
       \<Rightarrow> (item list \<times> world) option"
where
  "getRepositoryStructure 0 octokit owner repo p w = None"
| "getRepositoryStructure (Suc n) octokit owner repo p w =
     (case octokit owner repo p of
        Inl error \<Rightarrow>
          Some ([], w\<lparr>trace := trace w @ [GetContent owner repo p],
                       console := console w @ [(''Error getting repository structure:'', error)]\<rparr>)
      | Inr (Array entries) \<Rightarrow>
          structure_items n octokit owner repo entries
            (w\<lparr>trace := trace w @ [GetContent owner repo p]\<rparr>)
      | Inr (Object d) \<Rightarrow>
          Some ([FileItem (c_name d) (c_path d) (c_size d) (c_download_url d)],
                w\<lparr>trace := trace w @ [GetContent owner repo p]\<rparr>))"
| "structure_items n octokit owner repo [] w = Some ([], w)"
| "structure_items n octokit owner repo (e # rest) w =
     (if c_type e = ''dir'' then
        (case getRepositoryStructure n octokit owner repo (c_path e) w of
           None \<Rightarrow> None
         | Some (subItems, w') \<Rightarrow>
             (case structure_items n octokit owner repo rest w' of
                None \<Rightarrow> None
              | Some (items, w'') \<Rightarrow>
                  Some (DirectoryItem (c_name e) (c_path e) subItems # items, w'')))
      else if c_type e = ''file'' then
        (case structure_items n octokit owner repo rest w of
           None \<Rightarrow> None
         | Some (items, w') \<Rightarrow>
             Some (FileItem (c_name e) (c_path e) (c_size e) (c_download_url e) # items, w'))
      else structure_items n octokit owner repo rest w)"

subsection \<open>The fetcher\<close>

text \<open>
  \<^verbatim>\<open>getFileContent\<close>, lines 109 to 132. \<^verbatim>\<open>'content' in response.data\<close> is false
  for an array and for an object without the field.
\<close>

definition getFileContent ::
    "(string \<Rightarrow> string) \<Rightarrow> octokit \<Rightarrow> string \<Rightarrow> string \<Rightarrow> string \<Rightarrow> world
       \<Rightarrow> string option \<times> world" where
  "getFileContent decode octokit owner repo p w =
     (case octokit owner repo p of
        Inl error \<Rightarrow>
          (None, w\<lparr>trace := trace w @ [GetContent owner repo p],
                    console := console w @ [(''Error getting file content:'', error)]\<rparr>)
      | Inr (Array entries) \<Rightarrow> (None, w\<lparr>trace := trace w @ [GetContent owner repo p]\<rparr>)
      | Inr (Object d) \<Rightarrow>
          (case c_content d of
             Some b64 \<Rightarrow> (Some (decode b64), w\<lparr>trace := trace w @ [GetContent owner repo p]\<rparr>)
           | None \<Rightarrow> (None, w\<lparr>trace := trace w @ [GetContent owner repo p]\<rparr>)))"

subsection \<open>The SSE helpers\<close>

definition enqueue :: "controller \<Rightarrow> chunk \<Rightarrow> exn + controller" where
  "enqueue k c =
     (if is_closed k then Inl (Error ''Invalid state: Controller is already closed'')
      else Inr (Controller False (queue k @ [c])))"

text \<open>
  \<^verbatim>\<open>sseClients.forEach(client => client.controller.enqueue(...))\<close>: an exception
  of the callback ends the iteration and leaves \<^verbatim>\<open>forEach\<close>.
\<close>

fun forEach_enqueue :: "chunk \<Rightarrow> SSEClient list \<Rightarrow> exn option \<times> SSEClient list" where
  "forEach_enqueue c [] = (None, [])"
| "forEach_enqueue c (client # rest) =
     (case enqueue (controller client) c of
        Inl e \<Rightarrow> (Some e, client # rest)
      | Inr k \<Rightarrow>
          (case forEach_enqueue c rest of
             (r, rest') \<Rightarrow> (r, SSEClient (client_id client) k # rest')))"

text \<open>
  \<^verbatim>\<open>sseClients.find(c => c.id === clientId)\<close> followed by the write to the client
  found: the first client with the id, if any.
\<close>

fun enqueue_first :: "string \<Rightarrow> chunk \<Rightarrow> SSEClient list \<Rightarrow> exn option \<times> SSEClient list" where
  "enqueue_first cid c [] = (None, [])"
| "enqueue_first cid c (client # rest) =
     (if client_id client = cid then
        (case enqueue (controller client) c of
           Inl e \<Rightarrow> (Some e, client # rest)
         | Inr k \<Rightarrow> (None, SSEClient (client_id client) k # rest))
      else (case enqueue_first cid c rest of (r, rest') \<Rightarrow> (r, client # rest')))"

text \<open>
  \<^verbatim>\<open>sendSSEMessage\<close>, lines 135 to 148. \<^verbatim>\<open>if (clientId)\<close> is false for
  \<^verbatim>\<open>null\<close> and for the empty string.
\<close>

definition sendSSEMessage :: "string option \<Rightarrow> string \<Rightarrow> jobject \<Rightarrow> world \<Rightarrow> exn option \<times> world" where
  "sendSSEMessage clientId event data w =
     (case (if clientId = None \<or> clientId = Some '''' then
              forEach_enqueue (EventChunk event data) (sseClients w)
            else enqueue_first (the clientId) (EventChunk event data) (sseClients w)) of
        (r, clients) \<Rightarrow>
          (r, w\<lparr>sseClients := clients, trace := trace w @ [SendSSE clientId event data]\<rparr>))"

text \<open>
  \<^verbatim>\<open>keepAlive\<close>, lines 150 to 157: registers the interval timer. \<open>keepAlive_tick\<close>
  is the timer's callback.
\<close>

definition keepAlive :: "world \<Rightarrow> world" where
  "keepAlive w = w\<lparr>timers := timers w @ [(30000, KeepAliveTick)]\<rparr>"

definition keepAlive_tick :: "world \<Rightarrow> exn option \<times> world" where
  "keepAlive_tick w =
     (case forEach_enqueue KeepAliveComment (sseClients w) of
        (r, clients) \<Rightarrow> (r, w\<lparr>sseClients := clients\<rparr>))"

text \<open>
  The module's top level, lines 47 and 160: \<^verbatim>\<open>let sseClients = []\<close> and
  \<^verbatim>\<open>let keepAliveInterval = null\<close>. No statement of the module calls
  \<^verbatim>\<open>keepAlive\<close>, and none adds a client to \<^verbatim>\<open>sseClients\<close>.
\<close>

definition module_init :: world where
  "module_init = \<lparr>sseClients = [], timers = [], trace = [], console = []\<rparr>"

subsection \<open>The tool handlers\<close>

text \<open>
  \<^verbatim>\<open>processItems\<close>, lines 213 to 242, a closure over \<^verbatim>\<open>octokit\<close>, \<^verbatim>\<open>owner\<close>,
  \<^verbatim>\<open>repo\<close>, \<^verbatim>\<open>extensions\<close> and the array \<^verbatim>\<open>filesWithContent\<close> it pushes to,
  which is passed and returned here. \<open>processItem\<close> is the body of its loop. A
  \<^verbatim>\<open>DirectoryItem\<close> always has its \<^verbatim>\<open>children\<close> array, which is truthy. An exception
  of \<^verbatim>\<open>sendSSEMessage\<close> leaves the loop.
\<close>

fun processItems ::
    "(string \<Rightarrow> string) \<Rightarrow> octokit \<Rightarrow> string \<Rightarrow> string \<Rightarrow> string list \<Rightarrow> item list
       \<Rightarrow> FileWithContent list \<Rightarrow> world \<Rightarrow> exn option \<times> FileWithContent list \<times> world"
  and processItem ::
    "(string \<Rightarrow> string) \<Rightarrow> octokit \<Rightarrow> string \<Rightarrow> string \<Rightarrow> string list \<Rightarrow> item
       \<Rightarrow> FileWithContent list \<Rightarrow> world \<Rightarrow> exn option \<times> FileWithContent list \<times> world"
where
  "processItems decode octokit owner repo extensions [] filesWithContent w =
     (None, filesWithContent, w)"
| "processItems decode octokit owner repo extensions (i # rest) filesWithContent w =
     (case processItem decode octokit owner repo extensions i filesWithContent w of
        (Some e, fs, w') \<Rightarrow> (Some e, fs, w')
      | (None, fs, w') \<Rightarrow> processItems decode octokit owner repo extensions rest fs w')"
| "processItem decode octokit owner repo extensions (FileItem nm p sz url) filesWithContent w =
     (if fileExt nm \<in> set extensions \<or> ''*'' \<in> set extensions then
        (case sendSSEMessage None ''file_fetch_started''
                [(''path'', JString p), (''timestamp'', JTimestamp)] w of
           (Some e, w1) \<Rightarrow> (Some e, filesWithContent, w1)
         | (None, w1) \<Rightarrow>
             (case getFileContent decode octokit owner repo p w1 of
                (content, w2) \<Rightarrow>
                  (case sendSSEMessage None ''file_fetch_completed''
                          [(''path'', JString p), (''timestamp'', JTimestamp),
                           (''success'', JBool (content \<noteq> None))] w2 of
                     (Some e, w3) \<Rightarrow> (Some e, filesWithContent, w3)
                   | (None, w3) \<Rightarrow>
                       (None, filesWithContent @ [FileWithContent p content], w3))))
      else (None, filesWithContent, w))"
| "processItem decode octokit owner repo extensions (DirectoryItem nm p cs) filesWithContent w =
     processItems decode octokit owner repo extensions cs filesWithContent w"

text \<open>
  The \<^verbatim>\<open>try\<close> block of the handler of \<^verbatim>\<open>get_repository_structure\<close>, lines 190 to
  261: \<open>Inl\<close> is the exception that reaches the \<^verbatim>\<open>catch\<close>. \<^verbatim>\<open>response.files\<close>
  is assigned only behind the test of line 210, and
  \<^verbatim>\<open>response.files?.length || 0\<close> is the count sent with the last event.
\<close>

definition repository_try ::
    "nat \<Rightarrow> platform \<Rightarrow> string \<Rightarrow> string \<Rightarrow> string \<Rightarrow> bool \<Rightarrow> string list \<Rightarrow> world
       \<Rightarrow> ((exn + tool_result) \<times> world) option" where
  "repository_try fuel pf token owner repo includeContent extensions w =
     (case sendSSEMessage None ''repo_fetch_started''
             [(''owner'', JString owner), (''repo'', JString repo), (''timestamp'', JTimestamp)] w of
        (Some e, w1) \<Rightarrow> Some (Inl e, w1)
      | (None, w1) \<Rightarrow>
          (case getRepositoryStructure fuel (new_Octokit pf token) owner repo '''' w1 of
             None \<Rightarrow> None
           | Some (struct, w2) \<Rightarrow>
               (case (if includeContent \<and> 0 < length extensions then
                        (case processItems (base64_utf8 pf) (new_Octokit pf token) owner repo
                                extensions struct [] w2 of
                           (r, fs, w3) \<Rightarrow> (r, Some fs, w3))
                      else (None, None, w2)) of
                  (Some e, fo, w3) \<Rightarrow> Some (Inl e, w3)
                | (None, fo, w3) \<Rightarrow>
                    (case sendSSEMessage None ''repo_fetch_completed''
                            [(''owner'', JString owner), (''repo'', JString repo),
                             (''timestamp'', JTimestamp),
                             (''fileCount'', JNumber (case fo of None \<Rightarrow> 0 | Some fs \<Rightarrow> length fs))]
                            w3 of
                       (Some e, w4) \<Rightarrow> Some (Inl e, w4)
                     | (None, w4) \<Rightarrow>
                         Some (Inr (RepositoryResult
                                 \<lparr>r_owner = owner, r_repo = repo, r_structure = struct,
                                  files = fo\<rparr>), w4)))))"

text \<open>
  The handler of \<^verbatim>\<open>get_repository_structure\<close>, lines 180 to 281. Its result is
  \<open>None\<close> when the traversal runs out of fuel, \<open>Inl\<close> when the handler itself throws
  (the \<^verbatim>\<open>sendSSEMessage\<close> of the \<^verbatim>\<open>catch\<close> block is outside any \<^verbatim>\<open>try\<close>), and
  \<open>Inr\<close> with the value it returns otherwise.
\<close>

definition get_repository_structure ::
    "nat \<Rightarrow> platform \<Rightarrow> string \<Rightarrow> string \<Rightarrow> string \<Rightarrow> bool \<Rightarrow> string list \<Rightarrow> world
       \<Rightarrow> ((exn + tool_result) \<times> world) option" where
  "get_repository_structure fuel pf token owner repo includeContent extensions w =
     (if \<not> validateGitHubToken (Some token) then
        Some (Inr (ErrorResult ''Invalid GitHub token'' None), w)
      else
        (case repository_try fuel pf token owner repo includeContent extensions w of
           None \<Rightarrow> None
         | Some (Inr res, w') \<Rightarrow> Some (Inr res, w')
         | Some (Inl error, w') \<Rightarrow>
             (case sendSSEMessage None ''repo_fetch_error''
                     [(''owner'', JString owner), (''repo'', JString repo),
                      (''timestamp'', JTimestamp), (''error'', JString (message error))] w' of
                (Some e, w'') \<Rightarrow> Some (Inl e, w'')
              | (None, w'') \<Rightarrow>
                  Some (Inr (ErrorResult ''Error processing repository request''
                               (Some (message error))), w''))))"

text \<open>The \<^verbatim>\<open>try\<close> block of the handler of \<^verbatim>\<open>get_file_content\<close>, lines 303 to 354.\<close>

definition file_try ::
    "platform \<Rightarrow> string \<Rightarrow> string \<Rightarrow> string \<Rightarrow> string \<Rightarrow> world \<Rightarrow> (exn + tool_result) \<times> world" where
  "file_try pf token owner repo p w =
     (case sendSSEMessage None ''file_fetch_started''
             [(''path'', JString p), (''owner'', JString owner), (''repo'', JString repo),
              (''timestamp'', JTimestamp)] w of
        (Some e, w1) \<Rightarrow> (Inl e, w1)
      | (None, w1) \<Rightarrow>
          (case getFileContent (base64_utf8 pf) (new_Octokit pf token) owner repo p w1 of
             (None, w2) \<Rightarrow>
               (case sendSSEMessage None ''file_fetch_error''
                       [(''path'', JString p), (''owner'', JString owner), (''repo'', JString repo),
                        (''timestamp'', JTimestamp),
                        (''error'', JString ''File not found or content could not be retrieved'')]
                       w2 of
                  (Some e, w3) \<Rightarrow> (Inl e, w3)
                | (None, w3) \<Rightarrow>
                    (Inr (ErrorResult ''File not found or content could not be retrieved'' None),
                     w3))
           | (Some decoded, w2) \<Rightarrow>
               (case sendSSEMessage None ''file_fetch_completed''
                       [(''path'', JString p), (''owner'', JString owner), (''repo'', JString repo),
                        (''timestamp'', JTimestamp), (''success'', JBool True)] w2 of
                  (Some e, w3) \<Rightarrow> (Inl e, w3)
                | (None, w3) \<Rightarrow> (Inr (FileResult (FileResponse p (Some decoded))), w3))))"

text \<open>The handler of \<^verbatim>\<open>get_file_content\<close>, lines 293 to 375.\<close>

definition get_file_content ::
    "platform \<Rightarrow> string \<Rightarrow> string \<Rightarrow> string \<Rightarrow> string \<Rightarrow> world \<Rightarrow> (exn + tool_result) \<times> world" where
  "get_file_content pf token owner repo p w =
     (if \<not> validateGitHubToken (Some token) then
        (Inr (ErrorResult ''Invalid GitHub token'' None), w)
      else
        (case file_try pf token owner repo p w of
           (Inr res, w') \<Rightarrow> (Inr res, w')
         | (Inl error, w') \<Rightarrow>
             (case sendSSEMessage None ''file_fetch_error''
                     [(''path'', JString p), (''owner'', JString owner), (''repo'', JString repo),
                      (''timestamp'', JTimestamp), (''error'', JString (message error))] w' of
                (Some e, w'') \<Rightarrow> (Inl e, w'')
              | (None, w'') \<Rightarrow>
                  (Inr (ErrorResult ''Error processing file request'' (Some (message error))),
                   w''))))"

subsection \<open>Notions used to state the properties\<close>

text \<open>A client whose stream can be written, and a registry of such clients only.\<close>

definition writable :: "SSEClient \<Rightarrow> bool" where
  "writable client = (\<not> is_closed (controller client))"

definition all_open :: "world \<Rightarrow> bool" where
  "all_open w = list_all writable (sseClients w)"

text \<open>The client after one chunk more has reached its queue.\<close>

definition deliver :: "chunk \<Rightarrow> SSEClient \<Rightarrow> SSEClient" where
  "deliver c client =
     SSEClient (client_id client) (Controller False (queue (controller client) @ [c]))"

text \<open>What the host holds for a path, as the fetcher reads it.\<close>

definition content_of :: "(string \<Rightarrow> string) \<Rightarrow> octokit \<Rightarrow> string \<Rightarrow> string \<Rightarrow> string \<Rightarrow> string option" where
  "content_of decode octokit owner repo p =
     (case octokit owner repo p of
        Inl error \<Rightarrow> None
      | Inr (Array entries) \<Rightarrow> None
      | Inr (Object d) \<Rightarrow> map_option decode (c_content d))"

text \<open>The file nodes of a structure, depth first, in the order of the structure.\<close>

fun file_nodes :: "item list \<Rightarrow> item list"
  and file_nodes_item :: "item \<Rightarrow> item list"
where
  "file_nodes [] = []"
| "file_nodes (i # rest) = file_nodes_item i @ file_nodes rest"
| "file_nodes_item (FileItem nm p sz url) = [FileItem nm p sz url]"
| "file_nodes_item (DirectoryItem nm p cs) = file_nodes cs"

text \<open>Those of them that an extension list selects.\<close>

definition selected :: "string list \<Rightarrow> item \<Rightarrow> bool" where
  "selected extensions i = (fileExt (name i) \<in> set extensions \<or> ''*'' \<in> set extensions)"

text \<open>The calls made for one selected file, in order.\<close>

definition fetch_actions :: "(string \<Rightarrow> string) \<Rightarrow> octokit \<Rightarrow> string \<Rightarrow> string \<Rightarrow> string \<Rightarrow> action list" where
  "fetch_actions decode octokit owner repo p =
     [SendSSE None ''file_fetch_started'' [(''path'', JString p), (''timestamp'', JTimestamp)],
      GetContent owner repo p,
      SendSSE None ''file_fetch_completed''
        [(''path'', JString p), (''timestamp'', JTimestamp),
         (''success'', JBool (content_of decode octokit owner repo p \<noteq> None))]]"


text \<open>The host with every listing cut down to its file and directory entries.\<close>

definition prune :: "octokit \<Rightarrow> octokit" where
  "prune octokit owner repo p =
     (case octokit owner repo p of
        Inl error \<Rightarrow> Inl error
      | Inr (Array entries) \<Rightarrow>
          Inr (Array (filter (\<lambda>e. c_type e = ''dir'' \<or> c_type e = ''file'') entries))
      | Inr (Object d) \<Rightarrow> Inr (Object d))"

text \<open>The records the collector returns for a structure, and the calls it makes.\<close>

definition records_of ::
    "(string \<Rightarrow> string) \<Rightarrow> octokit \<Rightarrow> string \<Rightarrow> string \<Rightarrow> string list \<Rightarrow> item list
       \<Rightarrow> FileWithContent list" where
  "records_of decode octokit owner repo extensions items =
     map (\<lambda>i. FileWithContent (path i) (content_of decode octokit owner repo (path i)))
       (filter (selected extensions) (file_nodes items))"

definition collect_actions ::
    "(string \<Rightarrow> string) \<Rightarrow> octokit \<Rightarrow> string \<Rightarrow> string \<Rightarrow> string list \<Rightarrow> item list
       \<Rightarrow> action list" where
  "collect_actions decode octokit owner repo extensions items =
     concat (map (\<lambda>i. fetch_actions decode octokit owner repo (path i))
       (filter (selected extensions) (file_nodes items)))"

text \<open>The first and the last event of a repository request.\<close>

definition repo_fetch_started :: "string \<Rightarrow> string \<Rightarrow> action" where
  "repo_fetch_started owner repo =
     SendSSE None ''repo_fetch_started''
       [(''owner'', JString owner), (''repo'', JString repo), (''timestamp'', JTimestamp)]"

definition repo_fetch_completed :: "string \<Rightarrow> string \<Rightarrow> nat \<Rightarrow> action" where
  "repo_fetch_completed owner repo fileCount =
     SendSSE None ''repo_fetch_completed''
       [(''owner'', JString owner), (''repo'', JString repo), (''timestamp'', JTimestamp),
        (''fileCount'', JNumber fileCount)]"

text \<open>The events of a file request that finds no content.\<close>

definition file_fetch_started :: "string \<Rightarrow> string \<Rightarrow> string \<Rightarrow> action" where
  "file_fetch_started owner repo p =
     SendSSE None ''file_fetch_started''
       [(''path'', JString p), (''owner'', JString owner), (''repo'', JString repo),
        (''timestamp'', JTimestamp)]"

definition file_fetch_error :: "string \<Rightarrow> string \<Rightarrow> string \<Rightarrow> action" where
  "file_fetch_error owner repo p =
     SendSSE None ''file_fetch_error''
       [(''path'', JString p), (''owner'', JString owner), (''repo'', JString repo),
        (''timestamp'', JTimestamp),
        (''error'', JString ''File not found or content could not be retrieved'')]"

text \<open>The platform with the pruned host.\<close>

definition prune_platform :: "platform \<Rightarrow> platform" where
  "prune_platform pf = pf\<lparr>new_Octokit := \<lambda>token. prune (new_Octokit pf token)\<rparr>"


text \<open>
  The states the module can be in: the state after the module is loaded, and every
  state that a function of the module leaves behind when it is run in such a state, with
  any arguments and on any platform. The callback of the keep-alive timer runs only when
  \<^verbatim>\<open>setInterval\<close> has registered it. No rule adds a client to the registry and none
  calls \<^verbatim>\<open>keepAlive\<close>, because no statement of the module does: \<^verbatim>\<open>sseClients\<close> is
  assigned once, at line 47, is not exported, and is only read at lines 138, 144 and 153.
\<close>

inductive reachable :: "world \<Rightarrow> bool" where
  loaded: "reachable module_init"
| sent: "reachable w \<Longrightarrow> sendSSEMessage clientId event data w = (x, w') \<Longrightarrow> reachable w'"
| traversed:
    "reachable w \<Longrightarrow> getRepositoryStructure n octokit owner repo p w = Some (items, w')
       \<Longrightarrow> reachable w'"
| looped:
    "reachable w \<Longrightarrow> structure_items n octokit owner repo entries w = Some (items, w')
       \<Longrightarrow> reachable w'"
| fetched: "reachable w \<Longrightarrow> getFileContent decode octokit owner repo p w = (c, w') \<Longrightarrow> reachable w'"
| collected:
    "reachable w \<Longrightarrow> processItems decode octokit owner repo extensions items fs w = (x, fs', w')
       \<Longrightarrow> reachable w'"
| repository_handled:
    "reachable w
       \<Longrightarrow> get_repository_structure n pf token owner repo includeContent extensions w
             = Some (res, w')
       \<Longrightarrow> reachable w'"
| file_handled:
    "reachable w \<Longrightarrow> get_file_content pf token owner repo p w = (res, w') \<Longrightarrow> reachable w'"
| ticked:
    "reachable w \<Longrightarrow> (ms, KeepAliveTick) \<in> set (timers w) \<Longrightarrow> keepAlive_tick w = (x, w')
       \<Longrightarrow> reachable w'"

subsection \<open>A small repository, for the instances\<close>

text \<open>
  The root holds the file \<^verbatim>\<open>a.txt\<close>, the directories \<^verbatim>\<open>sub\<close> and \<^verbatim>\<open>docs\<close> and the
  symbolic link \<^verbatim>\<open>link\<close>; \<^verbatim>\<open>sub\<close> holds \<^verbatim>\<open>b.md\<close>; the listing of \<^verbatim>\<open>docs\<close> fails.
\<close>

definition demo_entry :: "string \<Rightarrow> string \<Rightarrow> string \<Rightarrow> string option \<Rightarrow> content_entry" where
  "demo_entry nm p ty c =
     \<lparr>c_name = nm, c_path = p, c_type = ty, c_size = 2, c_download_url = None, c_content = c\<rparr>"

definition demo_octokit :: octokit where
  "demo_octokit owner repo p =
     (if p = '''' then
        Inr (Array [demo_entry ''a.txt'' ''a.txt'' ''file'' None,
                    demo_entry ''sub'' ''sub'' ''dir'' None,
                    demo_entry ''docs'' ''docs'' ''dir'' None,
                    demo_entry ''link'' ''link'' ''symlink'' None])
      else if p = ''sub'' then
        Inr (Array [demo_entry ''b.md'' ''sub/b.md'' ''file'' None])
      else if p = ''a.txt'' then
        Inr (Object (demo_entry ''a.txt'' ''a.txt'' ''file'' (Some ''aGk='')))
      else if p = ''sub/b.md'' then
        Inr (Object (demo_entry ''b.md'' ''sub/b.md'' ''file'' (Some ''Yg=='')))
      else if p = ''docs'' then Inl (Error ''Server Error'')
      else Inl (Error ''Not Found''))"

definition demo_platform :: platform where
  "demo_platform = \<lparr>new_Octokit = (\<lambda>token. demo_octokit), base64_utf8 = (\<lambda>s. s)\<rparr>"

definition demo_world :: world where
  "demo_world =
     \<lparr>sseClients = [SSEClient ''c1'' (Controller False [])], timers = [], trace = [],
      console = []\<rparr>"

definition demo_structure :: "item list" where
  "demo_structure =
     [FileItem ''a.txt'' ''a.txt'' 2 None,
      DirectoryItem ''sub'' ''sub'' [FileItem ''b.md'' ''sub/b.md'' 2 None],
      DirectoryItem ''docs'' ''docs'' []]"

section \<open>Properties\<close>

subsection \<open>Broadcasting\<close>

lemma forEach_enqueue_eq:
  "forEach_enqueue c cs =
     (if list_all writable cs then None
      else Some (Error ''Invalid state: Controller is already closed''),
      map (deliver c) (takeWhile writable cs) @ dropWhile writable cs)"
  by (induction cs) (auto simp: enqueue_def writable_def deliver_def split: prod.splits)

lemma sendSSEMessage_broadcast:
  "sendSSEMessage None event data w =
     (if all_open w then None else Some (Error ''Invalid state: Controller is already closed''),
      w\<lparr>sseClients := map (deliver (EventChunk event data)) (takeWhile writable (sseClients w))
                        @ dropWhile writable (sseClients w),
        trace := trace w @ [SendSSE None event data]\<rparr>)"
  by (simp add: sendSSEMessage_def forEach_enqueue_eq all_open_def)

lemma takeWhile_all: "list_all P xs \<Longrightarrow> takeWhile P xs = xs \<and> dropWhile P xs = []"
  by (induction xs) auto

lemma sendSSEMessage_open:
  "all_open w \<Longrightarrow> sendSSEMessage None event data w =
     (None, w\<lparr>sseClients := map (deliver (EventChunk event data)) (sseClients w),
              trace := trace w @ [SendSSE None event data]\<rparr>)"
  by (simp add: sendSSEMessage_broadcast all_open_def takeWhile_all)

lemma writable_deliver: "writable (deliver c client)"
  by (simp add: writable_def deliver_def)

lemma all_open_deliver: "all_open (w\<lparr>sseClients := map (deliver c) (sseClients w), trace := t\<rparr>)"
  by (simp add: all_open_def list_all_iff writable_deliver)

text \<open>
  \<^verbatim>\<open>sendSSEMessage\<close> itself does not isolate a failed write (\<open>sendSSEMessage_broadcast\<close>):
  on a registry that held a closed client in front of an open one, nothing would reach
  the open client and the exception would leave the function. No state of the module
  holds such a registry; see \<open>reachable_invariant\<close> below.
\<close>

lemma sendSSEMessage_closed_first:
  "sendSSEMessage None ''repo_fetch_started'' []
     \<lparr>sseClients = [SSEClient ''a'' (Controller True []), SSEClient ''b'' (Controller False [])],
      timers = [], trace = [], console = []\<rparr>
   = (Some (Error ''Invalid state: Controller is already closed''),
      \<lparr>sseClients = [SSEClient ''a'' (Controller True []), SSEClient ''b'' (Controller False [])],
       timers = [], trace = [SendSSE None ''repo_fetch_started'' []], console = []\<rparr>)"
  by (simp add: sendSSEMessage_def enqueue_def)

subsection \<open>The fetcher and the collector\<close>

lemma getFileContent_eq:
  "getFileContent decode octokit owner repo p w =
     (content_of decode octokit owner repo p,
      w\<lparr>trace := trace w @ [GetContent owner repo p],
        console := console w @ (case octokit owner repo p of
                     Inl error \<Rightarrow> [(''Error getting file content:'', error)] | Inr d \<Rightarrow> [])\<rparr>)"
  by (simp add: getFileContent_def content_of_def
        split: sum.splits response_data.splits option.splits)

lemma processItems_open_aux:
  "(all_open w \<longrightarrow>
      (\<exists>w'. processItems decode octokit owner repo extensions items fs w =
         (None,
          fs @ map (\<lambda>i. FileWithContent (path i) (content_of decode octokit owner repo (path i)))
                 (filter (selected extensions) (file_nodes items)), w')
        \<and> all_open w' \<and> timers w' = timers w
        \<and> trace w' = trace w @ concat (map (\<lambda>i. fetch_actions decode octokit owner repo (path i))
                 (filter (selected extensions) (file_nodes items)))))"
  "(all_open w \<longrightarrow>
      (\<exists>w'. processItem decode octokit owner repo extensions i fs w =
         (None,
          fs @ map (\<lambda>i. FileWithContent (path i) (content_of decode octokit owner repo (path i)))
                 (filter (selected extensions) (file_nodes_item i)), w')
        \<and> all_open w' \<and> timers w' = timers w
        \<and> trace w' = trace w @ concat (map (\<lambda>i. fetch_actions decode octokit owner repo (path i))
                 (filter (selected extensions) (file_nodes_item i)))))"
proof (induction decode octokit owner repo extensions items fs w
         and decode octokit owner repo extensions i fs w
       rule: processItems_processItem.induct)
  case (1 decode octokit owner repo extensions filesWithContent w)
  show ?case by simp
next
  case (2 decode octokit owner repo extensions i rest filesWithContent w)
  show ?case
  proof
    assume o: "all_open w"
    from 2(1) o obtain w1 where
      s1: "processItem decode octokit owner repo extensions i filesWithContent w =
         (None,
          filesWithContent @ map (\<lambda>i. FileWithContent (path i) (content_of decode octokit owner repo (path i)))
                 (filter (selected extensions) (file_nodes_item i)), w1)"
      and o1: "all_open w1" and t1: "timers w1 = timers w"
      and tr1: "trace w1 = trace w @ concat (map (\<lambda>i. fetch_actions decode octokit owner repo (path i))
                 (filter (selected extensions) (file_nodes_item i)))"
      by blast
    from 2(2)[OF s1[symmetric] refl refl] o1 obtain w2 where
      s2: "processItems decode octokit owner repo extensions rest
             (filesWithContent @ map (\<lambda>i. FileWithContent (path i) (content_of decode octokit owner repo (path i)))
                 (filter (selected extensions) (file_nodes_item i))) w1 =
         (None,
          (filesWithContent @ map (\<lambda>i. FileWithContent (path i) (content_of decode octokit owner repo (path i)))
                 (filter (selected extensions) (file_nodes_item i)))
           @ map (\<lambda>i. FileWithContent (path i) (content_of decode octokit owner repo (path i)))
                 (filter (selected extensions) (file_nodes rest)), w2)"
      and o2: "all_open w2" and t2: "timers w2 = timers w1"
      and tr2: "trace w2 = trace w1 @ concat (map (\<lambda>i. fetch_actions decode octokit owner repo (path i))
                 (filter (selected extensions) (file_nodes rest)))"
      by blast
    show "\<exists>w'. processItems decode octokit owner repo extensions (i # rest) filesWithContent w =
         (None,
          filesWithContent @ map (\<lambda>i. FileWithContent (path i) (content_of decode octokit owner repo (path i)))
                 (filter (selected extensions) (file_nodes (i # rest))), w')
        \<and> all_open w' \<and> timers w' = timers w
        \<and> trace w' = trace w @ concat (map (\<lambda>i. fetch_actions decode octokit owner repo (path i))
                 (filter (selected extensions) (file_nodes (i # rest))))"
      using s1 s2 o2 t1 t2 tr1 tr2 by simp
  qed
next
  case (3 decode octokit owner repo extensions nm p sz url filesWithContent w)
  show ?case
    by (auto simp: sendSSEMessage_open all_open_deliver getFileContent_eq selected_def
          fetch_actions_def all_open_def list_all_iff writable_deliver)
next
  case (4 decode octokit owner repo extensions nm p cs filesWithContent w)
  then show ?case by simp
qed

lemma processItems_open:
  assumes "all_open w"
  shows "\<exists>w'. processItems decode octokit owner repo extensions items fs w =
            (None, fs @ records_of decode octokit owner repo extensions items, w')
          \<and> all_open w' \<and> timers w' = timers w
          \<and> trace w' = trace w @ collect_actions decode octokit owner repo extensions items"
  using processItems_open_aux(1)[of w decode octokit owner repo extensions items fs] assms
  by (simp add: records_of_def collect_actions_def)

subsection \<open>The traversal\<close>


lemma traversal_frame:
  "getRepositoryStructure n octokit owner repo p w = Some (items, w') \<Longrightarrow>
     sseClients w' = sseClients w \<and> timers w' = timers w \<and>
     (\<exists>acts. trace w' = trace w @ GetContent owner repo p # acts)"
  "structure_items n octokit owner repo es w = Some (items, w') \<Longrightarrow>
     sseClients w' = sseClients w \<and> timers w' = timers w \<and>
     (\<exists>acts. trace w' = trace w @ acts)"
proof (induction n octokit owner repo p w and n octokit owner repo es w
       arbitrary: items w' and items w'
       rule: getRepositoryStructure_structure_items.induct)
  case (1 octokit owner repo p w)
  then show ?case by simp
next
  case (2 n octokit owner repo p w)
  show ?case
  proof (cases "octokit owner repo p")
    case (Inl e)
    with 2(2) show ?thesis by auto
  next
    case (Inr d)
    show ?thesis
    proof (cases d)
      case (Array entries)
      from 2(2) Inr Array
      have "structure_items n octokit owner repo entries
              (w\<lparr>trace := trace w @ [GetContent owner repo p]\<rparr>) = Some (items, w')"
        by simp
      from 2(1)[OF Inr Array this] show ?thesis by auto
    next
      case (Object x)
      with Inr 2(2) show ?thesis by auto
    qed
  qed
next
  case (3 n octokit owner repo w)
  then show ?case by simp
next
  case (4 n octokit owner repo e rest w)
  note a = 4(5)
  show ?case
  proof (cases "c_type e = ''dir''")
    case True
    from a True obtain sub w1 where
      g: "getRepositoryStructure n octokit owner repo (c_path e) w = Some (sub, w1)"
      by (cases "getRepositoryStructure n octokit owner repo (c_path e) w") auto
    from a True g obtain its where
      r: "structure_items n octokit owner repo rest w1 = Some (its, w')"
      by (cases "structure_items n octokit owner repo rest w1") auto
    from 4(1)[OF True g] obtain a1 where f1: "sseClients w1 = sseClients w" "timers w1 = timers w"
      and t1: "trace w1 = trace w @ GetContent owner repo (c_path e) # a1" by blast
    from 4(2)[OF True g refl r] obtain a2 where f2: "sseClients w' = sseClients w1"
        "timers w' = timers w1" and t2: "trace w' = trace w1 @ a2" by blast
    show ?thesis using f1 f2 t1 t2 by simp
  next
    case False
    note nd = False
    show ?thesis
    proof (cases "c_type e = ''file''")
      case True
      from a nd True obtain its where
        r: "structure_items n octokit owner repo rest w = Some (its, w')"
        by (cases "structure_items n octokit owner repo rest w") auto
      from 4(3)[OF nd True r] show ?thesis .
    next
      case False
      from a nd False have r: "structure_items n octokit owner repo rest w = Some (items, w')"
        by simp
      from 4(4)[OF nd False r] show ?thesis .
    qed
  qed
qed

lemma traversal_prune:
  "getRepositoryStructure n (prune octokit) owner repo p w
     = getRepositoryStructure n octokit owner repo p w"
  "structure_items n (prune octokit) owner repo
       (filter (\<lambda>e. c_type e = ''dir'' \<or> c_type e = ''file'') es) w
     = structure_items n octokit owner repo es w"
proof (induction n octokit owner repo p w and n octokit owner repo es w
       rule: getRepositoryStructure_structure_items.induct)
  case (1 octokit owner repo p w)
  show ?case by simp
next
  case (2 n octokit owner repo p w)
  show ?case
  proof (cases "octokit owner repo p")
    case (Inl e)
    then show ?thesis by (simp add: prune_def)
  next
    case (Inr d)
    show ?thesis
    proof (cases d)
      case (Array entries)
      with Inr 2[OF Inr Array] show ?thesis by (simp add: prune_def)
    next
      case (Object x)
      with Inr show ?thesis by (simp add: prune_def)
    qed
  qed
next
  case (3 n octokit owner repo w)
  show ?case by simp
next
  case (4 n octokit owner repo e rest w)
  show ?case
  proof (cases "c_type e = ''dir''")
    case True
    note d = True
    show ?thesis
    proof (cases "getRepositoryStructure n octokit owner repo (c_path e) w")
      case None
      with d 4(1)[OF d] show ?thesis by simp
    next
      case (Some r)
      obtain sub w1 where r: "r = (sub, w1)" by (cases r)
      from 4(2)[OF d Some[unfolded r] refl]
      have "structure_items n (prune octokit) owner repo
              (filter (\<lambda>e. c_type e = ''dir'' \<or> c_type e = ''file'') rest) w1
            = structure_items n octokit owner repo rest w1" .
      with d 4(1)[OF d] Some r show ?thesis by simp
    qed
  next
    case False
    note nd = False
    show ?thesis
    proof (cases "c_type e = ''file''")
      case True
      with nd 4(3)[OF nd True] show ?thesis by simp
    next
      case False
      with nd 4(4)[OF nd False] show ?thesis by simp
    qed
  qed
qed

subsection \<open>The handler of the repository tool\<close>


lemma broadcast_returns_iff_all_open:
  "(fst (sendSSEMessage None event data w) = None) = all_open w"
  by (simp add: sendSSEMessage_broadcast)

subsection \<open>The small repository\<close>

lemma demo_valid: "validateGitHubToken (Some ''t'')"
  by (simp add: validateGitHubToken_def trim_def is_space_def)

lemma demo_open: "all_open demo_world"
  by (simp add: demo_world_def all_open_def writable_def)


subsection \<open>Host failures during the traversal\<close>






subsection \<open>The gate of the content collection\<close>

lemma demo_run_without_filter:
  "get_repository_structure (Suc (Suc 0)) demo_platform ''t'' ''o'' ''r'' True [] demo_world =
     Some (Inr (RepositoryResult
             \<lparr>r_owner = ''o'', r_repo = ''r'', r_structure = demo_structure, files = None\<rparr>),
       \<lparr>sseClients =
          [SSEClient ''c1'' (Controller False
             [EventChunk ''repo_fetch_started''
                [(''owner'', JString ''o''), (''repo'', JString ''r''), (''timestamp'', JTimestamp)],
              EventChunk ''repo_fetch_completed''
                [(''owner'', JString ''o''), (''repo'', JString ''r''), (''timestamp'', JTimestamp),
                 (''fileCount'', JNumber 0)]])],
        timers = [],
        trace = [repo_fetch_started ''o'' ''r'', GetContent ''o'' ''r'' '''',
                 GetContent ''o'' ''r'' ''sub'', GetContent ''o'' ''r'' ''docs'',
                 repo_fetch_completed ''o'' ''r'' 0],
        console = [(''Error getting repository structure:'', Error ''Server Error'')]\<rparr>)"
  by (simp add: get_repository_structure_def repository_try_def demo_valid demo_platform_def
        demo_octokit_def demo_entry_def demo_structure_def sendSSEMessage_def enqueue_def
        demo_world_def repo_fetch_started_def repo_fetch_completed_def)

text \<open>
  Claim C4. Whenever the handler returns a repository result, the result has a
  \<^verbatim>\<open>files\<close> field exactly when \<^verbatim>\<open>includeContent\<close> is true and the extension list
  is not empty. A request for content with an empty extension list runs as a request
  without content does, whatever extensions that one names: the same result, the same
  calls, the same state. And when the field is absent, the handler does nothing between
  the traversal and the final event, whose count is 0.
\<close>

theorem collection_needs_request_and_filter:
  assumes run: "get_repository_structure fuel pf token owner repo includeContent extensions w =
                  Some (Inr (RepositoryResult resp), w')"
  shows "(files resp \<noteq> None) = (includeContent \<and> extensions \<noteq> [])
       \<and> get_repository_structure fuel pf token owner repo True [] w =
           get_repository_structure fuel pf token owner repo False exts w
       \<and> (if includeContent \<and> extensions \<noteq> [] then True
          else \<exists>struct w2.
                 getRepositoryStructure fuel (new_Octokit pf token) owner repo ''''
                   (snd (sendSSEMessage None ''repo_fetch_started''
                      [(''owner'', JString owner), (''repo'', JString repo),
                       (''timestamp'', JTimestamp)] w)) = Some (struct, w2)
               \<and> r_structure resp = struct
               \<and> trace w' = trace w2 @ [repo_fetch_completed owner repo 0])"
proof (intro conjI)
  show "(files resp \<noteq> None) = (includeContent \<and> extensions \<noteq> [])"
    using run
    by (auto simp: get_repository_structure_def repository_try_def
          split: if_splits option.splits prod.splits sum.splits)
  show "get_repository_structure fuel pf token owner repo True [] w =
           get_repository_structure fuel pf token owner repo False exts w"
    by (simp add: get_repository_structure_def repository_try_def
          cong: prod.case_cong option.case_cong)
  show "if includeContent \<and> extensions \<noteq> [] then True
          else \<exists>struct w2.
                 getRepositoryStructure fuel (new_Octokit pf token) owner repo ''''
                   (snd (sendSSEMessage None ''repo_fetch_started''
                      [(''owner'', JString owner), (''repo'', JString repo),
                       (''timestamp'', JTimestamp)] w)) = Some (struct, w2)
               \<and> r_structure resp = struct
               \<and> trace w' = trace w2 @ [repo_fetch_completed owner repo 0]"
    using run
    by (auto simp: get_repository_structure_def repository_try_def repo_fetch_completed_def
          sendSSEMessage_broadcast
          split: if_splits option.splits prod.splits sum.splits)
qed

text \<open>
  The instance: content requested for the small repository, with no extension.
\<close>

theorem collection_needs_request_and_filter_witness:
  "get_repository_structure (Suc (Suc 0)) demo_platform ''t'' ''o'' ''r'' True [] demo_world =
     Some (Inr (RepositoryResult
             \<lparr>r_owner = ''o'', r_repo = ''r'', r_structure = demo_structure, files = None\<rparr>),
       \<lparr>sseClients =
          [SSEClient ''c1'' (Controller False
             [EventChunk ''repo_fetch_started''
                [(''owner'', JString ''o''), (''repo'', JString ''r''), (''timestamp'', JTimestamp)],
              EventChunk ''repo_fetch_completed''
                [(''owner'', JString ''o''), (''repo'', JString ''r''), (''timestamp'', JTimestamp),
                 (''fileCount'', JNumber 0)]])],
        timers = [],
        trace = [repo_fetch_started ''o'' ''r'', GetContent ''o'' ''r'' '''',
                 GetContent ''o'' ''r'' ''sub'', GetContent ''o'' ''r'' ''docs'',
                 repo_fetch_completed ''o'' ''r'' 0],
        console = [(''Error getting repository structure:'', Error ''Server Error'')]\<rparr>)
   \<and> (files \<lparr>r_owner = ''o'', r_repo = ''r'', r_structure = demo_structure, files = None\<rparr> \<noteq> None)
       = (True \<and> ([] :: string list) \<noteq> [])
   \<and> get_repository_structure (Suc (Suc 0)) demo_platform ''t'' ''o'' ''r'' True [] demo_world =
       get_repository_structure (Suc (Suc 0)) demo_platform ''t'' ''o'' ''r'' False [''md''] demo_world"
  using collection_needs_request_and_filter[OF demo_run_without_filter, of "[''md'']"]
    demo_run_without_filter
  by simp

subsection \<open>Collection with the wildcard\<close>

text \<open>
  Claim C5. With the extension list \<^verbatim>\<open>["*"]\<close> and a registry without a closed
  stream, \<^verbatim>\<open>processItems\<close> returns normally and pushes one record for each file node
  of the structure, in depth-first order, after the records it was given; the content
  of a record is whatever the fetcher yields for the path, \<open>None\<close> when the fetch fails.
\<close>

theorem wildcard_collects_every_file:
  assumes "all_open w"
  shows "fst (processItems decode octokit owner repo [''*''] items fs w) = None
       \<and> fst (snd (processItems decode octokit owner repo [''*''] items fs w)) =
           fs @ map (\<lambda>i. FileWithContent (path i) (content_of decode octokit owner repo (path i)))
                  (file_nodes items)"
proof -
  have "filter (selected [''*'']) (file_nodes items) = file_nodes items"
    by (simp add: selected_def)
  with processItems_open[OF assms, of decode octokit owner repo "[''*'']" items fs]
  show ?thesis by (auto simp: records_of_def)
qed

text \<open>The instance: the structure of the small repository.\<close>

theorem wildcard_collects_every_file_witness:
  "all_open demo_world
   \<and> fst (processItems (base64_utf8 demo_platform) demo_octokit ''o'' ''r'' [''*'']
            demo_structure [] demo_world) = None
   \<and> fst (snd (processItems (base64_utf8 demo_platform) demo_octokit ''o'' ''r'' [''*'']
                 demo_structure [] demo_world)) =
       [FileWithContent ''a.txt'' (Some ''aGk=''), FileWithContent ''sub/b.md'' (Some ''Yg=='')]"
proof -
  have e: "map (\<lambda>i. FileWithContent (path i)
                  (content_of (base64_utf8 demo_platform) demo_octokit ''o'' ''r'' (path i)))
             (file_nodes demo_structure)
           = [FileWithContent ''a.txt'' (Some ''aGk=''), FileWithContent ''sub/b.md'' (Some ''Yg=='')]"
    by (simp add: demo_structure_def content_of_def demo_octokit_def demo_entry_def
          demo_platform_def)
  from wildcard_collects_every_file[OF demo_open, of "base64_utf8 demo_platform" demo_octokit
      "''o''" "''r''" demo_structure "[]"]
  show ?thesis using demo_open by (simp add: e)
qed

subsection \<open>Who emits the file events\<close>

text \<open>
  Claim C6, as amended. The fetcher emits no event: one call of \<^verbatim>\<open>getFileContent\<close>
  adds its call of the host to the trace, logs the error of a failed call, and leaves
  the registry as it is. During the collection, with a registry without a closed
  stream, the calls made are, for each selected file in depth-first order, one
  \<^verbatim>\<open>file_fetch_started\<close>, the call of the host, and one \<^verbatim>\<open>file_fetch_completed\<close>
  whose flag says whether content was found; all three come from \<^verbatim>\<open>processItems\<close>.
\<close>

theorem fetch_events_come_from_the_collector:
  assumes "all_open w"
  shows "getFileContent decode octokit owner repo p w =
           (content_of decode octokit owner repo p,
            w\<lparr>trace := trace w @ [GetContent owner repo p],
              console := console w @ (case octokit owner repo p of
                           Inl error \<Rightarrow> [(''Error getting file content:'', error)]
                         | Inr d \<Rightarrow> [])\<rparr>)
       \<and> trace (snd (snd (processItems decode octokit owner repo extensions items fs w))) =
           trace w @ concat (map (\<lambda>i. fetch_actions decode octokit owner repo (path i))
                               (filter (selected extensions) (file_nodes items)))"
  using processItems_open[OF assms, of decode octokit owner repo extensions items fs]
  by (auto simp: getFileContent_eq collect_actions_def)

text \<open>The instance: the small repository with the extension list \<^verbatim>\<open>["md"]\<close>.\<close>

theorem fetch_events_come_from_the_collector_witness:
  "all_open demo_world
   \<and> getFileContent (base64_utf8 demo_platform) demo_octokit ''o'' ''r'' ''a.txt'' demo_world =
       (Some ''aGk='', demo_world\<lparr>trace := trace demo_world @ [GetContent ''o'' ''r'' ''a.txt'']\<rparr>)
   \<and> trace (snd (snd (processItems (base64_utf8 demo_platform) demo_octokit ''o'' ''r'' [''md'']
                        demo_structure [] demo_world))) =
       [SendSSE None ''file_fetch_started''
          [(''path'', JString ''sub/b.md''), (''timestamp'', JTimestamp)],
        GetContent ''o'' ''r'' ''sub/b.md'',
        SendSSE None ''file_fetch_completed''
          [(''path'', JString ''sub/b.md''), (''timestamp'', JTimestamp),
           (''success'', JBool True)]]"
proof -
  have s: "filter (selected [''md'']) (file_nodes demo_structure)
             = [FileItem ''b.md'' ''sub/b.md'' 2 None]"
    by (simp add: demo_structure_def selected_def fileExt_def pop_def toLowerCase_def
          toLowerCase_char_def)
  have c1: "content_of (base64_utf8 demo_platform) demo_octokit ''o'' ''r'' ''a.txt'' = Some ''aGk=''"
    and c2: "content_of (base64_utf8 demo_platform) demo_octokit ''o'' ''r'' ''sub/b.md''
               = Some ''Yg==''"
    and h: "demo_octokit ''o'' ''r'' ''a.txt''
              = Inr (Object (demo_entry ''a.txt'' ''a.txt'' ''file'' (Some ''aGk='')))"
    by (simp_all add: content_of_def demo_octokit_def demo_entry_def demo_platform_def)
  have t: "trace demo_world = []" by (simp add: demo_world_def)
  from fetch_events_come_from_the_collector[OF demo_open, of "base64_utf8 demo_platform"
      demo_octokit "''o''" "''r''" "''a.txt''" "[''md'']" demo_structure "[]"]
  show ?thesis using demo_open by (simp add: s c1 c2 h t fetch_actions_def)
qed

text \<open>
  Claim C6 as the spec states it fails: fetching \<^verbatim>\<open>a.txt\<close> emits nothing, and collecting
  the one file \<^verbatim>\<open>a.txt\<close> emits \<^verbatim>\<open>file_fetch_started\<close> once, not twice.
\<close>

theorem fetcher_emits_nothing_counterexample:
  "trace (snd (getFileContent (base64_utf8 demo_platform) demo_octokit ''o'' ''r'' ''a.txt''
                 demo_world)) = [GetContent ''o'' ''r'' ''a.txt'']
   \<and> sseClients (snd (getFileContent (base64_utf8 demo_platform) demo_octokit ''o'' ''r''
                        ''a.txt'' demo_world)) = sseClients demo_world
   \<and> trace (snd (snd (processItems (base64_utf8 demo_platform) demo_octokit ''o'' ''r'' [''*'']
                        [FileItem ''a.txt'' ''a.txt'' 2 None] [] demo_world))) =
       [SendSSE None ''file_fetch_started''
          [(''path'', JString ''a.txt''), (''timestamp'', JTimestamp)],
        GetContent ''o'' ''r'' ''a.txt'',
        SendSSE None ''file_fetch_completed''
          [(''path'', JString ''a.txt''), (''timestamp'', JTimestamp),
           (''success'', JBool True)]]"
  by (simp add: getFileContent_def sendSSEMessage_def enqueue_def demo_world_def
        demo_octokit_def demo_entry_def demo_platform_def)

subsection \<open>A file request that finds no content\<close>

lemma directory_has_no_content:
  "octokit owner repo p = Inr (Array entries) \<Longrightarrow> content_of decode octokit owner repo p = None"
  by (simp add: content_of_def)

text \<open>
  Claim C7. Let the token be valid and the registry be without a closed stream (which
  is the case exactly when the handler reaches the fetcher, by
  \<open>broadcast_returns_iff_all_open\<close>). If the host answers the path with a listing, or
  the fetch yields no content for any other reason, the handler of
  \<^verbatim>\<open>get_file_content\<close> returns the error result "File not found or content could not
  be retrieved", and the calls it makes are \<^verbatim>\<open>file_fetch_started\<close>, the call of the
  host and \<^verbatim>\<open>file_fetch_error\<close>. And in no state and for no input does the handler
  return a file result without content.
\<close>

theorem missing_content_is_not_found:
  assumes valid: "validateGitHubToken (Some token)"
    and opn: "all_open w"
    and absent: "(\<exists>entries. new_Octokit pf token owner repo p = Inr (Array entries))
                 \<or> content_of (base64_utf8 pf) (new_Octokit pf token) owner repo p = None"
  shows "(\<exists>w'. get_file_content pf token owner repo p w =
                 (Inr (ErrorResult ''File not found or content could not be retrieved'' None), w')
              \<and> trace w' = trace w @ [file_fetch_started owner repo p, GetContent owner repo p,
                                       file_fetch_error owner repo p])
       \<and> get_file_content pf token owner repo p u \<noteq> (Inr (FileResult (FileResponse q None)), u')"
proof
  from absent have c: "content_of (base64_utf8 pf) (new_Octokit pf token) owner repo p = None"
    by (auto simp: directory_has_no_content)
  let ?w1 = "w\<lparr>sseClients := map (deliver (EventChunk ''file_fetch_started''
                 [(''path'', JString p), (''owner'', JString owner), (''repo'', JString repo),
                  (''timestamp'', JTimestamp)])) (sseClients w),
               trace := trace w @ [file_fetch_started owner repo p]\<rparr>"
  have s1: "sendSSEMessage None ''file_fetch_started''
              [(''path'', JString p), (''owner'', JString owner), (''repo'', JString repo),
               (''timestamp'', JTimestamp)] w = (None, ?w1)"
    using sendSSEMessage_open[OF opn] by (simp add: file_fetch_started_def)
  have o1: "all_open ?w1" by (rule all_open_deliver)
  obtain w2 where g: "getFileContent (base64_utf8 pf) (new_Octokit pf token) owner repo p ?w1
                        = (None, w2)"
    and c2: "sseClients w2 = sseClients ?w1"
    and t2: "trace w2 = trace ?w1 @ [GetContent owner repo p]"
    using c by (simp add: getFileContent_eq)
  from o1 c2 have o2: "all_open w2" by (simp add: all_open_def)
  have s3: "sendSSEMessage None ''file_fetch_error''
              [(''path'', JString p), (''owner'', JString owner), (''repo'', JString repo),
               (''timestamp'', JTimestamp),
               (''error'', JString ''File not found or content could not be retrieved'')] w2
            = (None, w2\<lparr>sseClients := map (deliver (EventChunk ''file_fetch_error''
                 [(''path'', JString p), (''owner'', JString owner), (''repo'', JString repo),
                  (''timestamp'', JTimestamp),
                  (''error'', JString ''File not found or content could not be retrieved'')]))
                    (sseClients w2),
                 trace := trace w2 @ [file_fetch_error owner repo p]\<rparr>)"
    using sendSSEMessage_open[OF o2] by (simp add: file_fetch_error_def)
  show "\<exists>w'. get_file_content pf token owner repo p w =
                 (Inr (ErrorResult ''File not found or content could not be retrieved'' None), w')
              \<and> trace w' = trace w @ [file_fetch_started owner repo p, GetContent owner repo p,
                                       file_fetch_error owner repo p]"
    using valid s1 g s3 t2 by (simp add: get_file_content_def file_try_def)
next
  show "get_file_content pf token owner repo p u \<noteq> (Inr (FileResult (FileResponse q None)), u')"
    by (auto simp: get_file_content_def file_try_def
          split: if_splits option.splits prod.splits sum.splits)
qed

text \<open>The instance: the directory \<^verbatim>\<open>sub\<close> of the small repository.\<close>

theorem missing_content_is_not_found_witness:
  "validateGitHubToken (Some ''t'')
   \<and> all_open demo_world
   \<and> ((\<exists>entries. new_Octokit demo_platform ''t'' ''o'' ''r'' ''sub'' = Inr (Array entries))
        \<or> content_of (base64_utf8 demo_platform) (new_Octokit demo_platform ''t'') ''o'' ''r''
             ''sub'' = None)
   \<and> (\<exists>w'. get_file_content demo_platform ''t'' ''o'' ''r'' ''sub'' demo_world =
                 (Inr (ErrorResult ''File not found or content could not be retrieved'' None), w')
              \<and> trace w' = trace demo_world
                   @ [file_fetch_started ''o'' ''r'' ''sub'', GetContent ''o'' ''r'' ''sub'',
                      file_fetch_error ''o'' ''r'' ''sub''])
   \<and> get_file_content demo_platform ''t'' ''o'' ''r'' ''sub'' demo_world
       \<noteq> (Inr (FileResult (FileResponse ''sub'' None)), demo_world)"
proof -
  have h: "(\<exists>entries. new_Octokit demo_platform ''t'' ''o'' ''r'' ''sub'' = Inr (Array entries))
        \<or> content_of (base64_utf8 demo_platform) (new_Octokit demo_platform ''t'') ''o'' ''r''
             ''sub'' = None"
    by (simp add: demo_platform_def demo_octokit_def)
  note c = missing_content_is_not_found[OF demo_valid demo_open h,
      of demo_world "''sub''" demo_world]
  show ?thesis using demo_valid demo_open h c by blast
qed

subsection \<open>The empty token\<close>

text \<open>
  Claim C8. Called with the empty string as token, each of the two handlers returns the
  error result "Invalid GitHub token" and leaves the state as it found it: the trace
  has no call of the host and no event more, and nothing is enqueued. The repository
  handler does so whatever the fuel, since it never reaches the traversal.
\<close>

theorem empty_token_rejected_first:
  "get_repository_structure fuel pf '''' owner repo includeContent extensions w =
     Some (Inr (ErrorResult ''Invalid GitHub token'' None), w)
   \<and> get_file_content pf '''' owner repo p w =
     (Inr (ErrorResult ''Invalid GitHub token'' None), w)"
  by (simp add: get_repository_structure_def get_file_content_def validateGitHubToken_def)

text \<open>The instance on the small repository.\<close>

theorem empty_token_rejected_first_witness:
  "get_repository_structure (Suc (Suc 0)) demo_platform '''' ''o'' ''r'' True [''*''] demo_world =
     Some (Inr (ErrorResult ''Invalid GitHub token'' None), demo_world)
   \<and> get_file_content demo_platform '''' ''o'' ''r'' ''a.txt'' demo_world =
     (Inr (ErrorResult ''Invalid GitHub token'' None), demo_world)"
  by (rule empty_token_rejected_first)

subsection \<open>Entries that are neither files nor directories\<close>

lemma getFileContent_prune:
  "getFileContent decode (prune octokit) owner repo p w
     = getFileContent decode octokit owner repo p w"
  by (simp add: getFileContent_def prune_def split: sum.splits response_data.splits)

lemma processItems_prune:
  "processItems decode (prune octokit) owner repo extensions items fs w
     = processItems decode octokit owner repo extensions items fs w"
  "processItem decode (prune octokit) owner repo extensions i fs w
     = processItem decode octokit owner repo extensions i fs w"
proof (induction decode octokit owner repo extensions items fs w
         and decode octokit owner repo extensions i fs w
       rule: processItems_processItem.induct)
  case (1 decode octokit owner repo extensions filesWithContent w)
  show ?case by simp
next
  case (2 decode octokit owner repo extensions i rest filesWithContent w)
  obtain x fs' w' where r: "processItem decode octokit owner repo extensions i filesWithContent w
                              = (x, fs', w')"
    by (cases "processItem decode octokit owner repo extensions i filesWithContent w") auto
  show ?case
  proof (cases x)
    case None
    from 2(2)[OF r[symmetric] None refl] 2(1) r None show ?thesis by simp
  next
    case (Some e)
    with 2(1) r show ?thesis by simp
  qed
next
  case (3 decode octokit owner repo extensions nm p sz url filesWithContent w)
  show ?case by (simp add: getFileContent_prune cong: prod.case_cong option.case_cong)
next
  case (4 decode octokit owner repo extensions nm p cs filesWithContent w)
  then show ?case by simp
qed

lemma structure_items_filter:
  "structure_items n octokit owner repo
       (filter (\<lambda>e. c_type e = ''dir'' \<or> c_type e = ''file'') es) w
     = structure_items n octokit owner repo es w"
  by (induction es arbitrary: w) (simp_all split: option.splits)

lemma structure_items_shape:
  "structure_items n octokit owner repo es w = Some (items, w') \<Longrightarrow>
     map path items = map c_path (filter (\<lambda>e. c_type e = ''dir'' \<or> c_type e = ''file'') es)
     \<and> map name items = map c_name (filter (\<lambda>e. c_type e = ''dir'' \<or> c_type e = ''file'') es)"
proof (induction es arbitrary: w items w')
  case Nil
  then show ?case by simp
next
  case (Cons e es)
  show ?case
  proof (cases "c_type e = ''dir''")
    case True
    with Cons.prems obtain sub w1 its where
      "getRepositoryStructure n octokit owner repo (c_path e) w = Some (sub, w1)"
      and r: "structure_items n octokit owner repo es w1 = Some (its, w')"
      and i: "items = DirectoryItem (c_name e) (c_path e) sub # its"
      by (auto split: option.splits)
    from Cons.IH[OF r] i True show ?thesis by simp
  next
    case False
    note nd = False
    show ?thesis
    proof (cases "c_type e = ''file''")
      case True
      with nd Cons.prems obtain its where
        r: "structure_items n octokit owner repo es w = Some (its, w')"
        and i: "items = FileItem (c_name e) (c_path e) (c_size e) (c_download_url e) # its"
        by (auto split: option.splits)
      from Cons.IH[OF r] i True nd show ?thesis by simp
    next
      case False
      with nd Cons.prems have "structure_items n octokit owner repo es w = Some (items, w')"
        by simp
      from Cons.IH[OF this] nd False show ?thesis by simp
    qed
  qed
qed

lemma new_Octokit_prune_platform:
  "new_Octokit (prune_platform pf) token = prune (new_Octokit pf token)"
  "base64_utf8 (prune_platform pf) = base64_utf8 pf"
  by (simp_all add: prune_platform_def)

lemma repository_try_prune:
  "repository_try fuel (prune_platform pf) token owner repo includeContent extensions v
     = repository_try fuel pf token owner repo includeContent extensions v"
  by (simp add: repository_try_def new_Octokit_prune_platform traversal_prune processItems_prune
        cong: prod.case_cong option.case_cong if_cong)

text \<open>
  Claim C10. The loop over a listing makes one node for each entry of type
  \<^verbatim>\<open>file\<close> or \<^verbatim>\<open>dir\<close>, in the order of the listing, and none for any other entry:
  the paths and the names of the nodes are those of the file and directory entries.
  An entry of another type changes nothing at all: the loop gives the same nodes and the
  same state on the listing without such entries, the traversal gives the same on the
  host whose listings are cut down to files and directories, and so does the whole
  handler, content collection and events included.
\<close>

theorem other_entry_types_are_omitted:
  assumes "structure_items n octokit owner repo entries w = Some (items, w')"
  shows "map path items
           = map c_path (filter (\<lambda>e. c_type e = ''dir'' \<or> c_type e = ''file'') entries)
       \<and> map name items
           = map c_name (filter (\<lambda>e. c_type e = ''dir'' \<or> c_type e = ''file'') entries)
       \<and> structure_items n octokit owner repo
            (filter (\<lambda>e. c_type e = ''dir'' \<or> c_type e = ''file'') entries) w
           = structure_items n octokit owner repo entries w
       \<and> getRepositoryStructure fuel (prune octokit) owner repo p v
           = getRepositoryStructure fuel octokit owner repo p v
       \<and> get_repository_structure fuel (prune_platform pf) token owner repo includeContent
            extensions v
           = get_repository_structure fuel pf token owner repo includeContent extensions v"
  using structure_items_shape[OF assms]
  by (simp add: structure_items_filter traversal_prune repository_try_prune
        get_repository_structure_def)

text \<open>
  The instance: the root listing of the small repository, whose entry \<^verbatim>\<open>link\<close> is a
  symbolic link.
\<close>

theorem other_entry_types_are_omitted_witness:
  "structure_items (Suc 0) demo_octokit ''o'' ''r''
     [demo_entry ''a.txt'' ''a.txt'' ''file'' None, demo_entry ''sub'' ''sub'' ''dir'' None,
      demo_entry ''docs'' ''docs'' ''dir'' None, demo_entry ''link'' ''link'' ''symlink'' None]
     demo_world
     = Some (demo_structure,
         demo_world\<lparr>trace := [GetContent ''o'' ''r'' ''sub'', GetContent ''o'' ''r'' ''docs''],
           console := [(''Error getting repository structure:'', Error ''Server Error'')]\<rparr>)
   \<and> map path demo_structure = [''a.txt'', ''sub'', ''docs'']
   \<and> map name demo_structure = [''a.txt'', ''sub'', ''docs'']"
proof -
  have h: "structure_items (Suc 0) demo_octokit ''o'' ''r''
     [demo_entry ''a.txt'' ''a.txt'' ''file'' None, demo_entry ''sub'' ''sub'' ''dir'' None,
      demo_entry ''docs'' ''docs'' ''dir'' None, demo_entry ''link'' ''link'' ''symlink'' None]
     demo_world
     = Some (demo_structure,
         demo_world\<lparr>trace := [GetContent ''o'' ''r'' ''sub'', GetContent ''o'' ''r'' ''docs''],
           console := [(''Error getting repository structure:'', Error ''Server Error'')]\<rparr>)"
    by (simp add: demo_octokit_def demo_entry_def demo_structure_def demo_world_def)
  from other_entry_types_are_omitted[OF h] show ?thesis
    using h by (simp add: demo_entry_def)
qed

subsection \<open>The extension of a file name\<close>

lemma split_without_separator: "d \<notin> set s \<Longrightarrow> split d s = [s]"
  by (induction s) auto

lemma split_not_empty: "split d s \<noteq> []"
  by (induction s) (auto split: list.splits)

lemma split_with_separator: "d \<in> set s \<Longrightarrow> \<exists>w v ws. split d s = w # v # ws"
proof (induction s)
  case Nil
  then show ?case by simp
next
  case (Cons c s)
  show ?case
  proof (cases "c = d")
    case True
    then show ?thesis using split_not_empty[of d s] by (cases "split d s") auto
  next
    case False
    with Cons.prems have "d \<in> set s" by simp
    from Cons.IH[OF this] False show ?thesis by auto
  qed
qed

lemma last_split_after_separator: "last (split d (pre @ d # suf)) = last (split d suf)"
proof (induction pre)
  case Nil
  then show ?case by (simp add: split_not_empty)
next
  case (Cons c pre)
  have "d \<in> set (pre @ d # suf)" by simp
  from split_with_separator[OF this] obtain w v ws where
    s: "split d (pre @ d # suf) = w # v # ws" by blast
  with Cons show ?case by (auto simp: split_not_empty)
qed

lemma toLowerCase_empty: "(toLowerCase s = []) = (s = [])"
  by (simp add: toLowerCase_def)

lemma fileExt_after_last_dot:
  "CHR ''.'' \<notin> set suf \<Longrightarrow> fileExt (pre @ CHR ''.'' # suf) = toLowerCase suf"
  by (simp add: fileExt_def pop_def split_not_empty last_split_after_separator
        split_without_separator)

lemma fileExt_without_dot: "CHR ''.'' \<notin> set nm \<Longrightarrow> fileExt nm = toLowerCase nm"
  by (simp add: fileExt_def pop_def split_without_separator)

lemma fileExt_README: "fileExt ''README.MD'' = ''md''"
  by (simp add: fileExt_def pop_def toLowerCase_def toLowerCase_char_def)

text \<open>
  The part of claim C3 on names with a dot. For a name that ends in a dot and a suffix
  without dots, the derived extension is the suffix in lower case, and a filter that
  holds the suffix in lower case selects the file.
\<close>

theorem suffix_match_ignores_case:
  assumes "CHR ''.'' \<notin> set suf"
  shows "fileExt (pre @ CHR ''.'' # suf) = toLowerCase suf
       \<and> selected [toLowerCase suf] (FileItem (pre @ CHR ''.'' # suf) p sz url)"
  using assms by (simp add: fileExt_after_last_dot selected_def)

text \<open>The instance: \<^verbatim>\<open>README.MD\<close> and the filter \<^verbatim>\<open>["md"]\<close>.\<close>

theorem suffix_match_ignores_case_witness:
  "CHR ''.'' \<notin> set ''MD''
   \<and> fileExt ''README.MD'' = ''md''
   \<and> selected [''md''] (FileItem ''README.MD'' ''README.MD'' 2 None)"
  using suffix_match_ignores_case[of "''MD''" "''README''" "''README.MD''" 2 None]
  by (simp add: toLowerCase_def toLowerCase_char_def)

text \<open>
  Claim C3 on names without a dot: the code at the name \<^verbatim>\<open>Makefile\<close>. \<^verbatim>\<open>split\<close> returns
  the one-element array of the name, so \<^verbatim>\<open>pop\<close> returns the name, and the fallback
  \<^verbatim>\<open>|| ''\<close> is not reached: the derived extension is \<^verbatim>\<open>makefile\<close>, not the empty
  string, and the filter \<^verbatim>\<open>["makefile"]\<close> selects the file and collects a record for it.
  By \<open>fileExt_without_dot\<close> the same holds of every name without a dot: its derived
  extension is the whole name in lower case.
\<close>

theorem dotless_name_is_its_own_extension:
  "fileExt ''Makefile'' = ''makefile''
   \<and> selected [''makefile''] (FileItem ''Makefile'' ''Makefile'' 2 None)
   \<and> fst (snd (processItems (base64_utf8 demo_platform) demo_octokit ''o'' ''r'' [''makefile'']
                 [FileItem ''Makefile'' ''Makefile'' 2 None] [] demo_world)) =
       [FileWithContent ''Makefile'' None]"
  by (simp add: fileExt_def pop_def toLowerCase_def toLowerCase_char_def selected_def
        sendSSEMessage_def enqueue_def getFileContent_def demo_world_def demo_octokit_def
        demo_platform_def)

subsection \<open>The keep-alive timer\<close>

lemma sendSSEMessage_timers: "timers (snd (sendSSEMessage clientId event data w)) = timers w"
  by (simp add: sendSSEMessage_def split: prod.splits)

lemma send_timers: "sendSSEMessage clientId event data w = (r, w') \<Longrightarrow> timers w' = timers w"
  using sendSSEMessage_timers[of clientId event data w] by simp

lemma getFileContent_timers:
  "getFileContent decode octokit owner repo p w = (c, w') \<Longrightarrow> timers w' = timers w"
  by (auto simp: getFileContent_eq)

lemma processItems_timers:
  "timers (snd (snd (processItems decode octokit owner repo extensions items fs w))) = timers w"
  "timers (snd (snd (processItem decode octokit owner repo extensions i fs w))) = timers w"
proof (induction decode octokit owner repo extensions items fs w
         and decode octokit owner repo extensions i fs w
       rule: processItems_processItem.induct)
  case (1 decode octokit owner repo extensions filesWithContent w)
  show ?case by simp
next
  case (2 decode octokit owner repo extensions i rest filesWithContent w)
  obtain x fs' w' where r: "processItem decode octokit owner repo extensions i filesWithContent w
                              = (x, fs', w')"
    by (cases "processItem decode octokit owner repo extensions i filesWithContent w") auto
  show ?case
  proof (cases x)
    case None
    from 2(2)[OF r[symmetric] None refl] 2(1) r None show ?thesis by simp
  next
    case (Some e)
    with 2(1) r show ?thesis by simp
  qed
next
  case (3 decode octokit owner repo extensions nm p sz url filesWithContent w)
  show ?case
    by (auto split: prod.splits option.splits dest!: send_timers getFileContent_timers)
next
  case (4 decode octokit owner repo extensions nm p cs filesWithContent w)
  then show ?case by simp
qed

lemma processItems_timers':
  "processItems decode octokit owner repo extensions items fs w = (r, fs', w')
     \<Longrightarrow> timers w' = timers w"
  using processItems_timers(1)[of decode octokit owner repo extensions items fs w] by simp

lemma repository_try_timers:
  "repository_try fuel pf token owner repo includeContent extensions w = Some (r, w')
     \<Longrightarrow> timers w' = timers w"
  by (auto simp: repository_try_def
        split: prod.splits option.splits if_splits
        dest!: send_timers processItems_timers' traversal_frame(1))

lemma file_try_timers:
  "file_try pf token owner repo p w = (r, w') \<Longrightarrow> timers w' = timers w"
  by (auto simp: file_try_def split: prod.splits option.splits
        dest!: send_timers getFileContent_timers)

text \<open>
  \<^verbatim>\<open>keepAlive\<close> registers the interval timer of 30000 milliseconds. No timer is
  registered when the module is loaded, and neither handler registers one.
\<close>

lemma handlers_register_no_timer:
  "timers module_init = []
   \<and> timers (keepAlive w) = timers w @ [(30000, KeepAliveTick)]
   \<and> timers (snd (get_file_content pf token owner repo p w)) = timers w
   \<and> (case get_repository_structure fuel pf token owner repo includeContent extensions w of
        None \<Rightarrow> True
      | Some (r, w') \<Rightarrow> timers w' = timers w)"
  by (auto simp: module_init_def keepAlive_def get_file_content_def get_repository_structure_def
        split: prod.splits option.splits sum.splits
        dest!: send_timers file_try_timers repository_try_timers)

subsection \<open>The states the module reaches\<close>

lemma sendSSEMessage_empty_registry:
  "sseClients w = [] \<Longrightarrow>
     sendSSEMessage clientId event data w =
       (None, w\<lparr>sseClients := [], trace := trace w @ [SendSSE clientId event data]\<rparr>)"
  by (simp add: sendSSEMessage_def)

lemma send_registry:
  "sendSSEMessage clientId event data w = (x, w') \<Longrightarrow> sseClients w = []
     \<Longrightarrow> sseClients w' = []"
  by (auto simp: sendSSEMessage_empty_registry)

lemma getFileContent_registry:
  "getFileContent decode octokit owner repo p w = (c, w') \<Longrightarrow> sseClients w' = sseClients w"
  by (auto simp: getFileContent_eq)

lemma processItems_registry_aux:
  "sseClients w = [] \<longrightarrow>
     sseClients (snd (snd (processItems decode octokit owner repo extensions items fs w))) = []"
  "sseClients w = [] \<longrightarrow>
     sseClients (snd (snd (processItem decode octokit owner repo extensions i fs w))) = []"
proof (induction decode octokit owner repo extensions items fs w
         and decode octokit owner repo extensions i fs w
       rule: processItems_processItem.induct)
  case (1 decode octokit owner repo extensions filesWithContent w)
  show ?case by simp
next
  case (2 decode octokit owner repo extensions i rest filesWithContent w)
  obtain x fs' w' where r: "processItem decode octokit owner repo extensions i filesWithContent w
                              = (x, fs', w')"
    by (cases "processItem decode octokit owner repo extensions i filesWithContent w") auto
  show ?case
  proof (cases x)
    case None
    from 2(2)[OF r[symmetric] None refl] 2(1) r None show ?thesis by simp
  next
    case (Some e)
    with 2(1) r show ?thesis by simp
  qed
next
  case (3 decode octokit owner repo extensions nm p sz url filesWithContent w)
  show ?case
    by (simp add: sendSSEMessage_empty_registry getFileContent_eq)
next
  case (4 decode octokit owner repo extensions nm p cs filesWithContent w)
  then show ?case by simp
qed

lemma processItems_registry:
  "processItems decode octokit owner repo extensions items fs w = (x, fs', w')
     \<Longrightarrow> sseClients w = [] \<Longrightarrow> sseClients w' = []"
  using processItems_registry_aux(1)[of w decode octokit owner repo extensions items fs] by simp

lemma traversal_registry:
  "getRepositoryStructure n octokit owner repo p w = Some (items, w')
     \<Longrightarrow> sseClients w = [] \<Longrightarrow> sseClients w' = []"
  using traversal_frame(1)[of n octokit owner repo p w items w'] by simp

lemma repository_try_registry:
  assumes "repository_try fuel pf token owner repo includeContent extensions w = Some (r, w')"
    and e: "sseClients w = []"
  shows "sseClients w' = []"
proof -
  let ?w1 = "w\<lparr>sseClients := [], trace := trace w @ [SendSSE None ''repo_fetch_started''
               [(''owner'', JString owner), (''repo'', JString repo), (''timestamp'', JTimestamp)]]\<rparr>"
  from assms obtain struct w2 where
    g: "getRepositoryStructure fuel (new_Octokit pf token) owner repo '''' ?w1 = Some (struct, w2)"
    by (auto simp: repository_try_def sendSSEMessage_empty_registry split: option.splits)
  from traversal_registry[OF g] have e2: "sseClients w2 = []" by simp
  show ?thesis
  proof (cases "includeContent \<and> 0 < length extensions")
    case True
    obtain x fs w3 where p:
      "processItems (base64_utf8 pf) (new_Octokit pf token) owner repo extensions struct [] w2
         = (x, fs, w3)"
      by (cases "processItems (base64_utf8 pf) (new_Octokit pf token) owner repo extensions
                   struct [] w2") auto
    from processItems_registry[OF p e2] have e3: "sseClients w3 = []" .
    from assms(1) e g True p e3 show ?thesis
      by (cases x) (auto simp: repository_try_def sendSSEMessage_empty_registry)
  next
    case False
    from assms(1) e g False e2 show ?thesis
      by (auto simp: repository_try_def sendSSEMessage_empty_registry)
  qed
qed

lemma repository_handler_registry:
  assumes "get_repository_structure fuel pf token owner repo includeContent extensions w
             = Some (r, w')"
    and e: "sseClients w = []"
  shows "sseClients w' = []"
proof (cases "validateGitHubToken (Some token)")
  case False
  with assms show ?thesis by (simp add: get_repository_structure_def)
next
  case True
  from assms True obtain r1 w1 where
    t: "repository_try fuel pf token owner repo includeContent extensions w = Some (r1, w1)"
    by (auto simp: get_repository_structure_def split: option.splits)
  from repository_try_registry[OF t e] have e1: "sseClients w1 = []" .
  from assms(1) True t e1 show ?thesis
    by (cases r1) (auto simp: get_repository_structure_def sendSSEMessage_empty_registry)
qed

lemma file_handler_registry:
  assumes "get_file_content pf token owner repo p w = (r, w')"
    and e: "sseClients w = []"
  shows "sseClients w' = []"
  using assms
  by (auto simp: get_file_content_def file_try_def sendSSEMessage_empty_registry
        getFileContent_eq split: if_splits option.splits)

lemma reachable_invariant: "reachable w \<Longrightarrow> sseClients w = [] \<and> timers w = []"
proof (induction rule: reachable.induct)
  case loaded
  show ?case by (simp add: module_init_def)
next
  case (sent w clientId event data x w')
  then show ?case using send_registry send_timers by metis
next
  case (traversed w n octokit owner repo p items w')
  then show ?case using traversal_frame(1) by metis
next
  case (looped w n octokit owner repo entries items w')
  then show ?case using traversal_frame(2) by metis
next
  case (fetched w decode octokit owner repo p c w')
  then show ?case using getFileContent_registry getFileContent_timers by metis
next
  case (collected w decode octokit owner repo extensions items fs x fs' w')
  then show ?case using processItems_registry processItems_timers' by metis
next
  case (repository_handled w n pf token owner repo includeContent extensions res w')
  from repository_handled.hyps(2) have "timers w' = timers w"
    by (auto simp: get_repository_structure_def
          split: prod.splits option.splits sum.splits if_splits
          dest!: send_timers repository_try_timers)
  with repository_handled repository_handler_registry show ?case by metis
next
  case (file_handled w pf token owner repo p res w')
  from file_handled.hyps(2) have "timers w' = timers w"
    by (auto simp: get_file_content_def
          split: prod.splits option.splits sum.splits if_splits
          dest!: send_timers file_try_timers)
  with file_handled file_handler_registry show ?case by metis
next
  case (ticked w ms x w')
  then show ?case by simp
qed

lemma reachable_all_open: "reachable w \<Longrightarrow> all_open w"
  by (simp add: reachable_invariant all_open_def)



text \<open>
  In the same states the callback of the keep-alive timer, were it ever run, would
  enqueue nothing.
\<close>

lemma keepAlive_tick_empty_registry: "reachable w \<Longrightarrow> keepAlive_tick w = (None, w)"
  using reachable_invariant[of w] by (simp add: keepAlive_tick_def)

end
